theory Spec2Isabelle
  imports Complex_Main
begin

section \<open>Python values and the library boundary\<close>

text \<open>
  The tracker of \<^verbatim>\<open>freelance-job-tracker.py\<close> keeps its records in a pandas
  DataFrame with the eight columns \<^verbatim>\<open>client_name, project_name, rate, paid,
  deadline, date_added, hours, notes\<close>. The frame is modelled as the list of its rows in
  index order, a row as a record (the column \<^verbatim>\<open>notes\<close> is the field \<open>notes_col\<close>).

  Numbers are exact rationals: a Python \<^verbatim>\<open>int\<close> and a Python \<^verbatim>\<open>float\<close> are
  both a \<open>PNum\<close>, rounding to binary64 and the infinities are left out, and
  \<open>None\<close> in a numeric position is \<^verbatim>\<open>NaN\<close>, which is also how pandas shows a
  missing number. A point in time is the number of nanoseconds since 1970-01-01, and
  \<open>None\<close> in a time position is \<^verbatim>\<open>NaT\<close>.
\<close>

type_synonym pyfloat = "rat option"

type_synonym timestamp = int

datatype pyval = PNone | PBool bool | PNum pyfloat | PStr string | PTime timestamp

datatype exn = ValueError | TypeError | KeyError

text \<open>
  One dtype matters to the script, that of the column \<^verbatim>\<open>paid\<close>. A session that starts
  without a file starts from \<^verbatim>\<open>pd.DataFrame(columns=[...])\<close>, whose columns are of dtype
  \<^verbatim>\<open>object\<close>, and \<^verbatim>\<open>pd.concat\<close> of that frame with a new row keeps \<^verbatim>\<open>paid\<close> an
  \<^verbatim>\<open>object\<close> column of Python bools; a session that starts from a file has
  \<^verbatim>\<open>astype(bool)\<close> applied (line 18). No operation of the script changes the dtype
  afterwards: \<^verbatim>\<open>concat\<close> with a row keeps it and so does an assignment through
  \<^verbatim>\<open>.loc\<close>. It is therefore a constant of the session, fixed by \<^verbatim>\<open>load_data\<close>.
\<close>

datatype dtype = ObjectDtype | BoolDtype

text \<open>
  What the script takes from Python and pandas without defining it is a parameter of the
  model: the grammar of \<^verbatim>\<open>float(str)\<close>, \<^verbatim>\<open>pd.to_datetime\<close>, the value a
  \<^verbatim>\<open>datetime64\<close> column holds after an uncoerced assignment,
  \<^verbatim>\<open>.dt.to_period('M')\<close> (a month as an ordinal, so that the order of the ordinals
  is the order of the months), and what \<^verbatim>\<open>read_csv\<close> makes of a cell of a text column
  that is not a missing value, given the column it stands in (a number where every such
  cell of the column reads as a number, and so on).
\<close>

record pylib =
  float_str :: "string \<Rightarrow> pyfloat option"
  to_datetime :: "pyval \<Rightarrow> exn + timestamp option"
  setitem_datetime64 :: "pyval \<Rightarrow> timestamp option"
  to_period_M :: "timestamp \<Rightarrow> int"
  read_csv_text :: "pyval list \<Rightarrow> pyval \<Rightarrow> pyval"

text \<open>Truth value testing, as in \<^verbatim>\<open>if hours\<close> and \<^verbatim>\<open>bool(value)\<close>: \<^verbatim>\<open>None\<close>,
  \<^verbatim>\<open>False\<close>, zero and the empty string are false, \<^verbatim>\<open>NaN\<close> is true.\<close>

fun truthy :: "pyval \<Rightarrow> bool" where
  "truthy PNone = False"
| "truthy (PBool b) = b"
| "truthy (PNum None) = True"
| "truthy (PNum (Some q)) = (q \<noteq> 0)"
| "truthy (PStr s) = (s \<noteq> [])"
| "truthy (PTime t) = True"

text \<open>The builtin \<^verbatim>\<open>float(x)\<close>: a number is itself, a bool is 0 or 1, a string is
  parsed or raises \<^verbatim>\<open>ValueError\<close>, anything else raises \<^verbatim>\<open>TypeError\<close>.\<close>

fun py_float :: "pylib \<Rightarrow> pyval \<Rightarrow> exn + pyfloat" where
  "py_float L (PNum f) = Inr f"
| "py_float L (PBool b) = Inr (Some (if b then 1 else 0))"
| "py_float L (PStr s) = (case float_str L s of None \<Rightarrow> Inl ValueError | Some f \<Rightarrow> Inr f)"
| "py_float L PNone = Inl TypeError"
| "py_float L (PTime t) = Inl TypeError"

section \<open>The record store\<close>

record job =
  client_name :: pyval
  project_name :: pyval
  rate :: pyfloat
  paid :: bool
  deadline :: "timestamp option"
  date_added :: "timestamp option"
  hours :: pyfloat
  notes_col :: pyval

type_synonym dataframe = "job list"

text \<open>The tracker object: \<open>jobs\<close> is \<^verbatim>\<open>self.jobs\<close>; \<open>data_file\<close> is the CSV file,
  held as the frame last written to it (\<open>None\<close> while the file does not exist).\<close>

record tracker =
  jobs :: dataframe
  data_file :: "dataframe option"

text \<open>How an operation ends: normally, with one of its two printed refusals, or by
  raising.\<close>

datatype outcome = Done | NotFound | NoValidFields | Raised exn

definition save_data :: "tracker \<Rightarrow> tracker" where
  "save_data s = s\<lparr>data_file := Some (jobs s)\<rparr>"

text \<open>
  \<^verbatim>\<open>load_data\<close>. What \<^verbatim>\<open>pd.read_csv(..., parse_dates=['deadline', 'date_added'])\<close>
  returns for the text that \<^verbatim>\<open>to_csv(index=False)\<close> wrote is modelled from the
  documentation of pandas. A row is written for each record and read for each line, in
  order. A number is written in full and read back as the same number, a missing number as
  the empty field and back; a time likewise, through \<^verbatim>\<open>parse_dates\<close>; \<^verbatim>\<open>paid\<close> as
  \<^verbatim>\<open>True\<close> or \<^verbatim>\<open>False\<close> and back. In a text column a missing value is written as the
  empty field, and \<^verbatim>\<open>read_csv\<close> reads as missing every field that is one of its default
  markers (\<open>na_values\<close>, with \<^verbatim>\<open>keep_default_na\<close> left on); what it makes of the other
  cells is the library parameter \<open>read_csv_text\<close>.
\<close>

definition na_values :: "string list" where
  "na_values = ['''', ''#N/A'', ''#N/A N/A'', ''#NA'', ''-1.#IND'', ''-1.#QNAN'', ''-NaN'',
     ''-nan'', ''1.#IND'', ''1.#QNAN'', ''<NA>'', ''N/A'', ''NA'', ''NULL'', ''NaN'', ''None'',
     ''n/a'', ''nan'', ''null'']"

fun is_na_cell :: "pyval \<Rightarrow> bool" where
  "is_na_cell PNone = True"
| "is_na_cell (PNum None) = True"
| "is_na_cell (PStr s) = (s \<in> set na_values)"
| "is_na_cell _ = False"

definition read_back :: "pylib \<Rightarrow> pyval list \<Rightarrow> pyval \<Rightarrow> pyval" where
  "read_back L column c = (if is_na_cell c then PNone else read_csv_text L column c)"

definition read_csv :: "pylib \<Rightarrow> dataframe \<Rightarrow> dataframe" where
  "read_csv L written =
    map (\<lambda>j. j\<lparr>client_name := read_back L (map client_name written) (client_name j),
               project_name := read_back L (map project_name written) (project_name j),
               notes_col := read_back L (map notes_col written) (notes_col j)\<rparr>) written"

text \<open>\<^verbatim>\<open>load_data\<close> returns the frame and, with it, the dtype of its column
  \<^verbatim>\<open>paid\<close>; \<^verbatim>\<open>__init__\<close> keeps the frame as \<^verbatim>\<open>self.jobs\<close>.\<close>

definition load_data :: "pylib \<Rightarrow> dataframe option \<Rightarrow> dataframe \<times> dtype" where
  "load_data L file =
    (case file of
      Some written \<Rightarrow> (read_csv L written, BoolDtype)
    | None \<Rightarrow> ([], ObjectDtype))"

definition tracker_init :: "pylib \<Rightarrow> dataframe option \<Rightarrow> tracker \<times> dtype" where
  "tracker_init L file =
    (\<lparr>jobs = fst (load_data L file), data_file = file\<rparr>, snd (load_data L file))"

text \<open>\<^verbatim>\<open>add_job\<close>: the dictionary \<^verbatim>\<open>new_job\<close> is built entry by entry, so
  \<^verbatim>\<open>float(rate)\<close> runs first, then \<^verbatim>\<open>pd.to_datetime(deadline)\<close>, then
  \<^verbatim>\<open>float(hours) if hours else None\<close>; only then is the row appended and the frame
  saved. \<open>now\<close> is what \<^verbatim>\<open>datetime.now()\<close> returns.\<close>

definition add_job ::
  "pylib \<Rightarrow> timestamp \<Rightarrow> pyval \<Rightarrow> pyval \<Rightarrow> pyval \<Rightarrow> pyval \<Rightarrow> pyval \<Rightarrow> pyval \<Rightarrow> tracker
    \<Rightarrow> outcome \<times> tracker" where
  "add_job L now client project rate_arg deadline_arg hours_arg notes_arg s =
    (case py_float L rate_arg of
      Inl e \<Rightarrow> (Raised e, s)
    | Inr r \<Rightarrow>
       (case to_datetime L deadline_arg of
         Inl e \<Rightarrow> (Raised e, s)
       | Inr d \<Rightarrow>
          (case (if truthy hours_arg then py_float L hours_arg else Inr None) of
            Inl e \<Rightarrow> (Raised e, s)
          | Inr h \<Rightarrow>
             (Done, save_data (s\<lparr>jobs := jobs s @
                [\<lparr>client_name = client, project_name = project, rate = r, paid = False,
                  deadline = d, date_added = Some now, hours = h, notes_col = notes_arg\<rparr>]\<rparr>)))))"

text \<open>\<^verbatim>\<open>self.jobs.loc[self.jobs['project_name'] == project_name, col] = value\<close>:
  the mask is computed on the frame as it is, and every row it selects is assigned. The
  name looked up is a string, so a cell equals it exactly when it holds that string.\<close>

definition loc_set :: "string \<Rightarrow> (job \<Rightarrow> job) \<Rightarrow> dataframe \<Rightarrow> dataframe" where
  "loc_set pname assign df = map (\<lambda>j. if project_name j = PStr pname then assign j else j) df"

definition mark_as_paid :: "string \<Rightarrow> tracker \<Rightarrow> outcome \<times> tracker" where
  "mark_as_paid pname s =
    (if PStr pname \<in> set (map project_name (jobs s))
     then (Done, save_data (s\<lparr>jobs := loc_set pname (\<lambda>j. j\<lparr>paid := True\<rparr>) (jobs s)\<rparr>))
     else (NotFound, s))"

text \<open>\<^verbatim>\<open>edit_job\<close>. The keyword arguments are an association list in the order of the
  dictionary. One turn of the loop coerces the value by the column's name and assigns it;
  a coercion that raises leaves the loop, and the function, at once.\<close>

definition valid_columns :: "string list" where
  "valid_columns = [''client_name'', ''project_name'', ''rate'', ''paid'',
     ''deadline'', ''date_added'', ''hours'', ''notes'']"

definition assign_raw :: "pylib \<Rightarrow> string \<Rightarrow> pyval \<Rightarrow> job \<Rightarrow> job" where
  "assign_raw L col v j =
    (if col = ''client_name'' then j\<lparr>client_name := v\<rparr>
     else if col = ''project_name'' then j\<lparr>project_name := v\<rparr>
     else if col = ''date_added'' then j\<lparr>date_added := setitem_datetime64 L v\<rparr>
     else if col = ''notes'' then j\<lparr>notes_col := v\<rparr>
     else j)"

definition update_column :: "pylib \<Rightarrow> string \<Rightarrow> string \<Rightarrow> pyval \<Rightarrow> dataframe \<Rightarrow> exn + dataframe" where
  "update_column L pname col v df =
    (if col = ''deadline'' then
       (case to_datetime L v of
         Inl e \<Rightarrow> Inl e
       | Inr t \<Rightarrow> Inr (loc_set pname (\<lambda>j. j\<lparr>deadline := t\<rparr>) df))
     else if col \<in> set [''rate'', ''hours''] then
       (case py_float L v of
         Inl e \<Rightarrow> Inl e
       | Inr f \<Rightarrow> Inr (loc_set pname
                    (if col = ''rate'' then (\<lambda>j. j\<lparr>rate := f\<rparr>) else (\<lambda>j. j\<lparr>hours := f\<rparr>)) df))
     else if col = ''paid'' then Inr (loc_set pname (\<lambda>j. j\<lparr>paid := truthy v\<rparr>) df)
     else Inr (loc_set pname (assign_raw L col v) df))"

fun apply_updates :: "pylib \<Rightarrow> string \<Rightarrow> (string \<times> pyval) list \<Rightarrow> dataframe \<Rightarrow> exn option \<times> dataframe" where
  "apply_updates L pname [] df = (None, df)"
| "apply_updates L pname ((col, v) # rest) df =
    (case update_column L pname col v df of
      Inl e \<Rightarrow> (Some e, df)
    | Inr df' \<Rightarrow> apply_updates L pname rest df')"

definition edit_job :: "pylib \<Rightarrow> string \<Rightarrow> (string \<times> pyval) list \<Rightarrow> tracker \<Rightarrow> outcome \<times> tracker" where
  "edit_job L pname kwargs s =
    (if PStr pname \<notin> set (map project_name (jobs s)) then (NotFound, s)
     else
       (let valid_updates = filter (\<lambda>(k, v). k \<in> set valid_columns) kwargs in
        if valid_updates = [] then (NoValidFields, s)
        else
          (case apply_updates L pname valid_updates (jobs s) of
            (Some e, df) \<Rightarrow> (Raised e, s\<lparr>jobs := df\<rparr>)
          | (None, df) \<Rightarrow> (Done, save_data (s\<lparr>jobs := df\<rparr>)))))"

section \<open>Queries\<close>

text \<open>Comparing a \<^verbatim>\<open>datetime64\<close> cell with a time: \<^verbatim>\<open>NaT\<close> compares false
  both ways.\<close>

definition cell_le :: "timestamp option \<Rightarrow> timestamp \<Rightarrow> bool" where
  "cell_le c t = (case c of None \<Rightarrow> False | Some x \<Rightarrow> x \<le> t)"

definition cell_ge :: "timestamp option \<Rightarrow> timestamp \<Rightarrow> bool" where
  "cell_ge c t = (case c of None \<Rightarrow> False | Some x \<Rightarrow> t \<le> x)"

text \<open>\<^verbatim>\<open>pd.Timedelta(days=d)\<close> in nanoseconds.\<close>

definition Timedelta_days :: "int \<Rightarrow> int" where
  "Timedelta_days d = d * 86400000000000"

text \<open>The product of two numeric columns is \<^verbatim>\<open>NaN\<close> where either is; \<^verbatim>\<open>.sum()\<close>
  skips \<^verbatim>\<open>NaN\<close>.\<close>

fun series_mul :: "pyfloat \<Rightarrow> pyfloat \<Rightarrow> pyfloat" where
  "series_mul (Some a) (Some b) = Some (a * b)"
| "series_mul _ _ = None"

fun series_sum :: "pyfloat list \<Rightarrow> rat" where
  "series_sum [] = 0"
| "series_sum (None # xs) = series_sum xs"
| "series_sum (Some x # xs) = x + series_sum xs"

text \<open>\<^verbatim>\<open>list_jobs\<close> prints the frame it has filtered; the model returns the rows
  printed, each with its \<^verbatim>\<open>estimated_pay\<close>, and no row where the script prints that
  nothing matches. The argument \<^verbatim>\<open>upcoming_deadlines\<close> is \<^verbatim>\<open>None\<close> or a whole number
  of days, and \<^verbatim>\<open>if upcoming_deadlines\<close> tests its truth value.\<close>

definition list_jobs :: "timestamp \<Rightarrow> tracker \<Rightarrow> bool \<Rightarrow> int option \<Rightarrow> (job \<times> pyfloat) list" where
  "list_jobs now s filter_unpaid upcoming_deadlines =
    (let df = jobs s;
         df = (if filter_unpaid then filter (\<lambda>j. paid j = False) df else df);
         df = (case upcoming_deadlines of
                 None \<Rightarrow> df
               | Some d \<Rightarrow>
                   if d \<noteq> 0
                   then (let today = now;
                             df = filter (\<lambda>j. cell_le (deadline j) (today + Timedelta_days d)) df
                         in filter (\<lambda>j. cell_ge (deadline j) today) df)
                   else df)
     in if df = [] then [] else map (\<lambda>j. (j, series_mul (hours j) (rate j))) df)"

text \<open>\<^verbatim>\<open>get_stats\<close> prints a summary, or only a message when the frame is empty. Its
  first argument is the dtype of the column \<^verbatim>\<open>paid\<close> in this session. Lines 87 and 92
  work for either dtype (an \<^verbatim>\<open>object\<close> column of bools is accepted as a mask). Line 97
  negates the column: on a \<^verbatim>\<open>bool\<close> column \<^verbatim>\<open>~\<close> is the logical negation, on an
  \<^verbatim>\<open>object\<close> column it is Python's \<^verbatim>\<open>~\<close> on each bool, which gives \<^verbatim>\<open>-1\<close> or
  \<^verbatim>\<open>-2\<close>, and \<^verbatim>\<open>self.jobs[...]\<close> then looks these up as column labels and raises
  \<^verbatim>\<open>KeyError\<close>.\<close>

record stats =
  total_jobs :: int
  paid_jobs :: int
  unpaid_jobs :: int
  total_earnings :: rat
  potential_earnings :: rat
  upcoming :: dataframe

definition get_stats :: "dtype \<Rightarrow> timestamp \<Rightarrow> tracker \<Rightarrow> exn + stats option" where
  "get_stats paid_dtype now s =
    (if jobs s = [] then Inr None
     else if paid_dtype = ObjectDtype then Inl KeyError
     else
       (let total = int (length (jobs s));
            n_paid = int (length (filter paid (jobs s)));
            paid_with_hours = filter paid (jobs s);
            unpaid_with_hours = filter (\<lambda>j. \<not> paid j) (jobs s);
            today = now
        in Inr (Some \<lparr>total_jobs = total,
                 paid_jobs = n_paid,
                 unpaid_jobs = total - n_paid,
                 total_earnings =
                   series_sum (map (\<lambda>j. series_mul (hours j) (rate j)) paid_with_hours),
                 potential_earnings =
                   series_sum (map (\<lambda>j. series_mul (hours j) (rate j)) unpaid_with_hours),
                 upcoming =
                   filter (\<lambda>j. cell_le (deadline j) (today + Timedelta_days 7) \<and>
                                cell_ge (deadline j) today) (jobs s)\<rparr>)))"

text \<open>\<^verbatim>\<open>generate_earnings_chart\<close>. \<^verbatim>\<open>groupby('month_year')['earnings'].sum()\<close> keeps one
  row for each key, in the order of the keys, drops the rows whose key is \<^verbatim>\<open>NaT\<close> and
  adds up the earnings of a key. The model returns the bars drawn, a month ordinal and a
  height each, and no bar where the script prints a message and returns.\<close>

fun add_to_group :: "int \<Rightarrow> rat \<Rightarrow> (int \<times> rat) list \<Rightarrow> (int \<times> rat) list" where
  "add_to_group k v [] = [(k, v)]"
| "add_to_group k v ((k', t) # gs) =
    (if k = k' then (k', v + t) # gs
     else if k < k' then (k, v) # (k', t) # gs
     else (k', t) # add_to_group k v gs)"

fun groupby_sum :: "(int option \<times> pyfloat) list \<Rightarrow> (int \<times> rat) list" where
  "groupby_sum [] = []"
| "groupby_sum ((None, v) # rows) = groupby_sum rows"
| "groupby_sum ((Some k, v) # rows) = add_to_group k (series_sum [v]) (groupby_sum rows)"

definition generate_earnings_chart :: "pylib \<Rightarrow> tracker \<Rightarrow> (int \<times> rat) list" where
  "generate_earnings_chart L s =
    (if jobs s = [] then []
     else
       (let paid_rows = filter (\<lambda>j. paid j \<and> hours j \<noteq> None \<and> rate j \<noteq> None) (jobs s) in
        if paid_rows = [] then []
        else
          (let monthly_earnings =
                 groupby_sum (map (\<lambda>j. (map_option (to_period_M L) (date_added j),
                                          series_mul (hours j) (rate j))) paid_rows)
           in if monthly_earnings = [] then [] else monthly_earnings)))"

section \<open>A library to run the examples\<close>

text \<open>
  \<open>py_lib\<close> is one value of the library parameter, used where an example has to be
  computed. Its \<open>float_str\<close> reads an optional sign, digits and an optional fraction; its
  \<open>to_datetime\<close> takes \<^verbatim>\<open>None\<close> to \<^verbatim>\<open>NaT\<close>, a datetime to itself and a string
  \<^verbatim>\<open>YYYY-MM-DD\<close> to midnight of that day of the proleptic Gregorian calendar, and
  raises on every other string; numbers are not used as dates in the examples. Its
  \<open>setitem_datetime64\<close> keeps a datetime, reads such a string and stores \<^verbatim>\<open>NaT\<close>
  otherwise. Its
  \<open>to_period_M\<close> counts months from January 1970, as the ordinal of a pandas
  \<^verbatim>\<open>Period\<close> of frequency \<^verbatim>\<open>M\<close> does. Its \<open>read_csv_text\<close> keeps a cell as it is;
  text that reads as a number or as a bool is not used in the examples. Every theorem
  below holds for every library.
\<close>

definition digit_of :: "char \<Rightarrow> nat option" where
  "digit_of c = map_of [(CHR ''0'', 0), (CHR ''1'', 1), (CHR ''2'', 2), (CHR ''3'', 3),
     (CHR ''4'', 4), (CHR ''5'', 5), (CHR ''6'', 6), (CHR ''7'', 7), (CHR ''8'', 8),
     (CHR ''9'', 9)] c"

fun digits_val :: "string \<Rightarrow> nat \<Rightarrow> nat option" where
  "digits_val [] acc = Some acc"
| "digits_val (c # cs) acc =
    (case digit_of c of None \<Rightarrow> None | Some d \<Rightarrow> digits_val cs (10 * acc + d))"

definition unsigned_decimal :: "string \<Rightarrow> rat option" where
  "unsigned_decimal s =
    (let ip = takeWhile (\<lambda>c. c \<noteq> CHR ''.'') s;
         rest = dropWhile (\<lambda>c. c \<noteq> CHR ''.'') s
     in if rest = [] then (if ip = [] then None else map_option of_nat (digits_val ip 0))
        else if ip = [] \<and> tl rest = [] then None
        else (case (digits_val ip 0, digits_val (tl rest) 0) of
               (Some a, Some b) \<Rightarrow> Some (of_nat a + of_nat b / 10 ^ length (tl rest))
             | _ \<Rightarrow> None))"

fun decimal_str :: "string \<Rightarrow> pyfloat option" where
  "decimal_str [] = None"
| "decimal_str (c # cs) =
    (if c = CHR ''-'' then map_option (\<lambda>q. Some (- q)) (unsigned_decimal cs)
     else if c = CHR ''+'' then map_option Some (unsigned_decimal cs)
     else map_option Some (unsigned_decimal (c # cs)))"

definition is_leap :: "int \<Rightarrow> bool" where
  "is_leap y = (y mod 4 = 0 \<and> (y mod 100 \<noteq> 0 \<or> y mod 400 = 0))"

definition days_in_month :: "int \<Rightarrow> int \<Rightarrow> int" where
  "days_in_month y m =
    (if m = 2 then (if is_leap y then 29 else 28)
     else if m = 4 \<or> m = 6 \<or> m = 9 \<or> m = 11 then 30 else 31)"

definition days_from_civil :: "int \<Rightarrow> int \<Rightarrow> int \<Rightarrow> int" where
  "days_from_civil y m d =
    (let y' = (if m \<le> 2 then y - 1 else y);
         era = y' div 400;
         yoe = y' - era * 400;
         doy = (153 * (if m > 2 then m - 3 else m + 9) + 2) div 5 + d - 1;
         doe = yoe * 365 + yoe div 4 - yoe div 100 + doy
     in era * 146097 + doe - 719468)"

definition month_from_days :: "int \<Rightarrow> int" where
  "month_from_days z =
    (let z0 = z + 719468;
         era = z0 div 146097;
         doe = z0 - era * 146097;
         yoe = (doe - doe div 1460 + doe div 36524 - doe div 146096) div 365;
         doy = doe - (365 * yoe + yoe div 4 - yoe div 100);
         mp = (5 * doy + 2) div 153;
         m = (if mp < 10 then mp + 3 else mp - 9);
         y = yoe + era * 400 + (if m \<le> 2 then 1 else 0)
     in (y - 1970) * 12 + (m - 1))"

fun iso_date :: "string \<Rightarrow> timestamp option" where
  "iso_date [y1, y2, y3, y4, s1, m1, m2, s2, d1, d2] =
    (if s1 = CHR ''-'' \<and> s2 = CHR ''-'' then
       (case (digits_val [y1, y2, y3, y4] 0, digits_val [m1, m2] 0, digits_val [d1, d2] 0) of
         (Some y, Some m, Some d) \<Rightarrow>
           if 1 \<le> m \<and> m \<le> 12 \<and> 1 \<le> d \<and> int d \<le> days_in_month (int y) (int m)
           then Some (Timedelta_days (days_from_civil (int y) (int m) (int d)))
           else None
       | _ \<Rightarrow> None)
     else None)"
| "iso_date _ = None"

fun py_to_datetime :: "pyval \<Rightarrow> exn + timestamp option" where
  "py_to_datetime PNone = Inr None"
| "py_to_datetime (PTime t) = Inr (Some t)"
| "py_to_datetime (PStr s) = (case iso_date s of None \<Rightarrow> Inl ValueError | Some t \<Rightarrow> Inr (Some t))"
| "py_to_datetime (PNum x) = Inl TypeError"
| "py_to_datetime (PBool b) = Inl TypeError"

fun py_setitem_datetime64 :: "pyval \<Rightarrow> timestamp option" where
  "py_setitem_datetime64 (PTime t) = Some t"
| "py_setitem_datetime64 (PStr s) = iso_date s"
| "py_setitem_datetime64 _ = None"

definition py_lib :: pylib where
  "py_lib = \<lparr>float_str = decimal_str, to_datetime = py_to_datetime,
     setitem_datetime64 = py_setitem_datetime64,
     to_period_M = (\<lambda>t. month_from_days (t div Timedelta_days 1)),
     read_csv_text = (\<lambda>column c. c)\<rparr>"

section \<open>The invariant of the data model\<close>

text \<open>The specification asks that \<^verbatim>\<open>rate\<close> and \<^verbatim>\<open>hours\<close>, when present, be
  non-negative numbers, in every record of the collection.\<close>

definition nonneg :: "pyfloat \<Rightarrow> bool" where
  "nonneg x = (case x of None \<Rightarrow> True | Some q \<Rightarrow> 0 \<le> q)"

definition rate_hours_nonneg :: "dataframe \<Rightarrow> bool" where
  "rate_hours_nonneg df = list_all (\<lambda>j. nonneg (rate j) \<and> nonneg (hours j)) df"

section \<open>Example trackers\<close>

text \<open>The times are 2025-05-20 12:00 (\<open>may_20\<close>) and 2025-06-01 00:00 (the deadline of
  \<open>acme\<close> and of \<open>globex\<close>), in nanoseconds since 1970-01-01. \<open>globex\<close> has the
  project name of \<open>acme\<close> and no hours.\<close>

definition may_20 :: timestamp where
  "may_20 = 1747742400000000000"

definition empty_tracker :: tracker where
  "empty_tracker = \<lparr>jobs = [], data_file = None\<rparr>"

definition acme :: job where
  "acme = \<lparr>client_name = PStr ''Acme'', project_name = PStr ''Website'', rate = Some 50,
     paid = False, deadline = Some 1748736000000000000, date_added = Some may_20,
     hours = Some 10, notes_col = PNone\<rparr>"

definition acme_tracker :: tracker where
  "acme_tracker = \<lparr>jobs = [acme], data_file = Some [acme]\<rparr>"


definition globex :: job where
  "globex = \<lparr>client_name = PStr ''Globex'', project_name = PStr ''Website'', rate = Some 40,
     paid = False, deadline = Some 1748736000000000000, date_added = Some may_20,
     hours = None, notes_col = PStr ''redesign''\<rparr>"

definition two_websites :: tracker where
  "two_websites = \<lparr>jobs = [acme, globex], data_file = Some [acme, globex]\<rparr>"

definition hooli :: job where
  "hooli = \<lparr>client_name = PStr ''Hooli'', project_name = PStr ''Logo'', rate = Some 20,
     paid = False, deadline = None, date_added = Some may_20,
     hours = Some 5, notes_col = PNone\<rparr>"

definition mixed_tracker :: tracker where
  "mixed_tracker = \<lparr>jobs = [acme\<lparr>paid := True\<rparr>, globex\<lparr>paid := True\<rparr>, globex, hooli],
     data_file = None\<rparr>"

text \<open>\<open>chart_tracker\<close> holds, in this order, a paid record of May 2025 with 5 hours at 20,
  a paid record of April 2025 (added 2025-04-10) with 2 hours at 10, an unpaid record, a
  paid record without hours, and a second paid record of May 2025 (added 2025-05-25) with
  3 hours at 20.\<close>

definition chart_tracker :: tracker where
  "chart_tracker = \<lparr>jobs =
      [hooli\<lparr>paid := True\<rparr>,
       hooli\<lparr>paid := True, rate := Some 10, hours := Some 2,
         date_added := Some 1744243200000000000\<rparr>,
       acme,
       globex\<lparr>paid := True\<rparr>,
       hooli\<lparr>paid := True, hours := Some 3, date_added := Some 1748174400000000000\<rparr>],
     data_file = None\<rparr>"

section \<open>Properties\<close>

subsection \<open>Evaluating the example library\<close>

lemma py_lib_fields:
  "float_str py_lib = decimal_str"
  "to_datetime py_lib = py_to_datetime"
  "setitem_datetime64 py_lib = py_setitem_datetime64"
  "to_period_M py_lib t = month_from_days (t div Timedelta_days 1)"
  "read_csv_text py_lib column c = c"
  by (simp_all add: py_lib_def)

lemma float_abc: "py_float py_lib (PStr ''abc'') = Inl ValueError"
  by (simp add: py_lib_fields unsigned_decimal_def digit_of_def)

lemma float_50: "py_float py_lib (PStr ''50'') = Inr (Some 50)"
  by (simp add: py_lib_fields unsigned_decimal_def digit_of_def)

lemma float_10: "py_float py_lib (PStr ''10'') = Inr (Some 10)"
  by (simp add: py_lib_fields unsigned_decimal_def digit_of_def)

lemma float_minus_50: "py_float py_lib (PStr ''-50'') = Inr (Some (- 50))"
  by (simp add: py_lib_fields unsigned_decimal_def digit_of_def)

lemma float_minus_3: "py_float py_lib (PStr ''-3'') = Inr (Some (- 3))"
  by (simp add: py_lib_fields unsigned_decimal_def digit_of_def)

lemma date_june_1: "to_datetime py_lib (PStr ''2025-06-01'') = Inr (Some 1748736000000000000)"
  by (simp add: py_lib_fields digit_of_def days_in_month_def days_from_civil_def
      Timedelta_days_def is_leap_def)

text \<open>The example tracker is what the first \<^verbatim>\<open>add_job\<close> of the specification's
  round-trip example leaves behind.\<close>

lemma acme_by_add_job:
  "add_job py_lib may_20 (PStr ''Acme'') (PStr ''Website'') (PStr ''50'')
     (PStr ''2025-06-01'') (PStr ''10'') PNone empty_tracker = (Done, acme_tracker)"
  by (simp add: add_job_def float_50 float_10 date_june_1 empty_tracker_def acme_tracker_def
      acme_def save_data_def del: py_float.simps)

subsection \<open>Adding a record\<close>

text \<open>
  Claim C2. For every collection, \<^verbatim>\<open>add_job\<close> with a rate that \<^verbatim>\<open>float\<close> does not
  accept (the string \<^verbatim>\<open>abc\<close>, say) raises the error of \<^verbatim>\<open>float\<close> and leaves the
  tracker exactly as it was: no record is appended and nothing is written.
\<close>

theorem add_job_bad_rate_unchanged:
  "py_float L rate_arg = Inl e \<Longrightarrow>
   add_job L now client project rate_arg deadline_arg hours_arg notes_arg s = (Raised e, s)"
  by (simp add: add_job_def)

theorem add_job_bad_rate_unchanged_witness:
  "py_float py_lib (PStr ''abc'') = Inl ValueError \<and>
   add_job py_lib may_20 (PStr ''Initech'') (PStr ''Logo'') (PStr ''abc'')
     (PStr ''2025-06-01'') (PStr ''10'') PNone acme_tracker = (Raised ValueError, acme_tracker)"
  using add_job_bad_rate_unchanged [OF float_abc] float_abc by blast

lemma series_sum_append: "series_sum (xs @ ys) = series_sum xs + series_sum ys"
  by (induction xs rule: series_sum.induct) simp_all

lemma series_sum_present:
  "series_sum (map (\<lambda>j. series_mul (hours j) (rate j)) (filter P xs)) =
   (\<Sum>j\<leftarrow>filter (\<lambda>j. P j \<and> hours j \<noteq> None \<and> rate j \<noteq> None) xs. the (hours j) * the (rate j))"
proof (induction xs)
  case Nil
  show ?case by simp
next
  case (Cons x xs)
  show ?case
  proof (cases "hours x")
    case None
    with Cons show ?thesis by simp
  next
    case (Some h)
    with Cons show ?thesis by (cases "rate x") simp_all
  qed
qed

lemma get_stats_bool_dtype:
  "jobs s \<noteq> [] \<Longrightarrow>
   \<exists>st. get_stats BoolDtype now s = Inr (Some st) \<and>
     total_earnings st =
       (\<Sum>j\<leftarrow>filter (\<lambda>j. paid j \<and> hours j \<noteq> None \<and> rate j \<noteq> None) (jobs s).
          the (hours j) * the (rate j)) \<and>
     potential_earnings st =
       (\<Sum>j\<leftarrow>filter (\<lambda>j. \<not> paid j \<and> hours j \<noteq> None \<and> rate j \<noteq> None) (jobs s).
          the (hours j) * the (rate j))"
  by (simp add: get_stats_def Let_def series_sum_present)

lemma get_stats_object_dtype:
  "jobs s \<noteq> [] \<Longrightarrow> get_stats ObjectDtype now s = Inl KeyError"
  by (simp add: get_stats_def)

text \<open>
  Claim C10. An \<^verbatim>\<open>add_job\<close> whose hours argument is false as a truth value (the number
  0, the empty string) and whose rate and deadline are accepted creates a record with no
  hours. Its estimated pay is \<^verbatim>\<open>NaN\<close>; the chart would not change were the record
  paid; and where \<^verbatim>\<open>get_stats\<close> prints its summary (the column \<^verbatim>\<open>paid\<close> being of
  dtype \<^verbatim>\<open>bool\<close>), the two earnings sums range over the records that were there before.
\<close>

theorem add_job_falsy_hours_absent:
  "\<not> truthy hours_arg \<Longrightarrow> py_float L rate_arg = Inr r \<Longrightarrow> to_datetime L deadline_arg = Inr d \<Longrightarrow>
   \<exists>new s'.
     add_job L now client project rate_arg deadline_arg hours_arg notes_arg s = (Done, s') \<and>
     jobs s' = jobs s @ [new] \<and> hours new = None \<and> rate new = r \<and>
     series_mul (hours new) (rate new) = None \<and>
     generate_earnings_chart L (s'\<lparr>jobs := jobs s @ [new\<lparr>paid := True\<rparr>]\<rparr>) =
       generate_earnings_chart L s \<and>
     (\<exists>st. get_stats BoolDtype t s' = Inr (Some st) \<and>
        total_earnings st =
          (\<Sum>j\<leftarrow>filter (\<lambda>j. paid j \<and> hours j \<noteq> None \<and> rate j \<noteq> None) (jobs s).
             the (hours j) * the (rate j)) \<and>
        potential_earnings st =
          (\<Sum>j\<leftarrow>filter (\<lambda>j. \<not> paid j \<and> hours j \<noteq> None \<and> rate j \<noteq> None) (jobs s).
             the (hours j) * the (rate j)))"
proof -
  assume falsy: "\<not> truthy hours_arg" and r: "py_float L rate_arg = Inr r"
    and d: "to_datetime L deadline_arg = Inr d"
  define new where "new = \<lparr>client_name = client, project_name = project, rate = r, paid = False,
    deadline = d, date_added = Some now, hours = None, notes_col = notes_arg\<rparr>"
  define s' where "s' = save_data (s\<lparr>jobs := jobs s @ [new]\<rparr>)"
  have add: "add_job L now client project rate_arg deadline_arg hours_arg notes_arg s = (Done, s')"
    using falsy r d by (simp add: add_job_def s'_def new_def)
  have js: "jobs s' = jobs s @ [new]"
    by (simp add: s'_def save_data_def)
  have chart: "generate_earnings_chart L (s'\<lparr>jobs := jobs s @ [new\<lparr>paid := True\<rparr>]\<rparr>) =
      generate_earnings_chart L s"
    by (simp add: generate_earnings_chart_def Let_def new_def)
  have "jobs s' \<noteq> []"
    by (simp add: js)
  from get_stats_bool_dtype [OF this, of t]
  have stats: "\<exists>st. get_stats BoolDtype t s' = Inr (Some st) \<and>
        total_earnings st =
          (\<Sum>j\<leftarrow>filter (\<lambda>j. paid j \<and> hours j \<noteq> None \<and> rate j \<noteq> None) (jobs s).
             the (hours j) * the (rate j)) \<and>
        potential_earnings st =
          (\<Sum>j\<leftarrow>filter (\<lambda>j. \<not> paid j \<and> hours j \<noteq> None \<and> rate j \<noteq> None) (jobs s).
             the (hours j) * the (rate j))"
    by (simp add: js new_def)
  from add js chart stats show ?thesis
    by (intro exI [of _ new] exI [of _ s']) (simp add: new_def)
qed

theorem add_job_falsy_hours_absent_witness:
  "\<not> truthy (PNum (Some 0)) \<and> \<not> truthy (PStr '''') \<and>
   (\<exists>new s'. add_job py_lib may_20 (PStr ''Hooli'') (PStr ''Logo'') (PStr ''50'')
       (PStr ''2025-06-01'') (PNum (Some 0)) PNone acme_tracker = (Done, s') \<and>
     jobs s' = jobs acme_tracker @ [new] \<and> hours new = None) \<and>
   (\<exists>new s'. add_job py_lib may_20 (PStr ''Hooli'') (PStr ''Logo'') (PStr ''50'')
       (PStr ''2025-06-01'') (PStr '''') PNone acme_tracker = (Done, s') \<and>
     jobs s' = jobs acme_tracker @ [new] \<and> hours new = None)"
proof -
  have z: "\<not> truthy (PNum (Some 0))" and e: "\<not> truthy (PStr '''')" by simp_all
  from add_job_falsy_hours_absent [OF z float_50 date_june_1, where now = may_20 and client = "PStr ''Hooli''" and project = "PStr ''Logo''" and notes_arg = PNone and s = acme_tracker and t = may_20]
    add_job_falsy_hours_absent [OF e float_50 date_june_1, where now = may_20 and client = "PStr ''Hooli''" and project = "PStr ''Logo''" and notes_arg = PNone and s = acme_tracker and t = may_20]
    z e
  show ?thesis by blast
qed

subsection \<open>Marking a record paid\<close>

text \<open>
  Claim C1, as amended. \<^verbatim>\<open>mark_as_paid\<close> sets \<^verbatim>\<open>paid\<close> on every record whose project
  name is the one given, leaves every other record and every other field as they were,
  and saves; when no record has that name it reports so and changes nothing.
\<close>

theorem mark_as_paid_every_match:
  "(PStr pname \<notin> project_name ` set (jobs s) \<longrightarrow> mark_as_paid pname s = (NotFound, s)) \<and>
   (PStr pname \<in> project_name ` set (jobs s) \<longrightarrow>
     (\<exists>s'. mark_as_paid pname s = (Done, s') \<and>
        length (jobs s') = length (jobs s) \<and>
        (\<forall>i<length (jobs s).
           jobs s' ! i = (if project_name (jobs s ! i) = PStr pname
                          then (jobs s ! i)\<lparr>paid := True\<rparr> else jobs s ! i)) \<and>
        data_file s' = Some (jobs s')))"
  by (simp add: mark_as_paid_def save_data_def loc_set_def)

theorem mark_as_paid_every_match_witness:
  "PStr ''Logo'' \<notin> project_name ` set (jobs two_websites) \<and>
   mark_as_paid ''Logo'' two_websites = (NotFound, two_websites) \<and>
   PStr ''Website'' \<in> project_name ` set (jobs two_websites) \<and>
   (\<exists>s'. mark_as_paid ''Website'' two_websites = (Done, s') \<and>
      length (jobs s') = length (jobs two_websites) \<and>
      (\<forall>i<length (jobs two_websites).
         jobs s' ! i = (if project_name (jobs two_websites ! i) = PStr ''Website''
                        then (jobs two_websites ! i)\<lparr>paid := True\<rparr> else jobs two_websites ! i)) \<and>
      data_file s' = Some (jobs s'))"
proof -
  have a: "PStr ''Logo'' \<notin> project_name ` set (jobs two_websites)"
    by (simp add: two_websites_def acme_def globex_def)
  have b: "PStr ''Website'' \<in> project_name ` set (jobs two_websites)"
    by (simp add: two_websites_def acme_def globex_def)
  from a b mark_as_paid_every_match [of "''Logo''" two_websites]
    mark_as_paid_every_match [of "''Website''" two_websites]
  show ?thesis by blast
qed

text \<open>The claim as it was stated asks that only the first match be marked. With two
  records of one project name the second is marked as well.\<close>

theorem mark_as_paid_first_only_counterexample:
  "jobs two_websites = [acme, globex] \<and> project_name acme = PStr ''Website'' \<and>
   project_name globex = PStr ''Website'' \<and> \<not> paid globex \<and>
   mark_as_paid ''Website'' two_websites =
     (Done, \<lparr>jobs = [acme\<lparr>paid := True\<rparr>, globex\<lparr>paid := True\<rparr>],
             data_file = Some [acme\<lparr>paid := True\<rparr>, globex\<lparr>paid := True\<rparr>]\<rparr>) \<and>
   paid (jobs (snd (mark_as_paid ''Website'' two_websites)) ! 1)"
  by (simp add: two_websites_def acme_def globex_def mark_as_paid_def loc_set_def save_data_def)

subsection \<open>Listing\<close>

lemma window_filter:
  "filter (\<lambda>j. cell_ge (deadline j) now)
     (filter (\<lambda>j. cell_le (deadline j) (now + Timedelta_days d)) xs) =
   filter (\<lambda>j. \<exists>t. deadline j = Some t \<and> now \<le> t \<and> t \<le> now + d * 86400000000000) xs"
  by (induction xs) (auto simp: cell_le_def cell_ge_def Timedelta_days_def split: option.splits)

lemma unpaid_filter:
  "(if b then filter (\<lambda>j. paid j = False) xs else xs) = filter (\<lambda>j. b \<longrightarrow> \<not> paid j) xs"
  by simp

lemma map_unless_empty: "(if xs = [] then [] else map f xs) = map f xs"
  by simp

text \<open>
  Claim C4, as amended. With a window of \<open>d\<close> days, \<open>d\<close> not zero, \<^verbatim>\<open>list_jobs\<close> keeps
  exactly the records whose deadline lies between now and now plus \<open>d\<close> days, both ends
  included, and unpaid as well when the unpaid filter is on, in the order of the frame.
  With a window of 0 days the test \<^verbatim>\<open>if upcoming_deadlines\<close> fails and no record is
  dropped for its deadline.
\<close>

theorem list_jobs_window:
  "(d \<noteq> 0 \<longrightarrow>
     list_jobs now s filter_unpaid (Some d) =
       map (\<lambda>j. (j, series_mul (hours j) (rate j)))
         (filter (\<lambda>j. (filter_unpaid \<longrightarrow> \<not> paid j) \<and>
                     (\<exists>t. deadline j = Some t \<and> now \<le> t \<and> t \<le> now + d * 86400000000000))
            (jobs s))) \<and>
   list_jobs now s filter_unpaid (Some 0) =
     map (\<lambda>j. (j, series_mul (hours j) (rate j)))
       (filter (\<lambda>j. filter_unpaid \<longrightarrow> \<not> paid j) (jobs s))"
proof (intro conjI impI)
  assume d: "d \<noteq> 0"
  have "list_jobs now s filter_unpaid (Some d) =
      map (\<lambda>j. (j, series_mul (hours j) (rate j)))
        (filter (\<lambda>j. \<exists>t. deadline j = Some t \<and> now \<le> t \<and> t \<le> now + d * 86400000000000)
           (filter (\<lambda>j. filter_unpaid \<longrightarrow> \<not> paid j) (jobs s)))"
    unfolding list_jobs_def Let_def unpaid_filter map_unless_empty using d
    by (simp add: window_filter del: filter_filter)
  also have "\<dots> = map (\<lambda>j. (j, series_mul (hours j) (rate j)))
         (filter (\<lambda>j. (filter_unpaid \<longrightarrow> \<not> paid j) \<and>
                     (\<exists>t. deadline j = Some t \<and> now \<le> t \<and> t \<le> now + d * 86400000000000))
            (jobs s))"
    by (simp add: conj_commute)
  finally show "list_jobs now s filter_unpaid (Some d) =
       map (\<lambda>j. (j, series_mul (hours j) (rate j)))
         (filter (\<lambda>j. (filter_unpaid \<longrightarrow> \<not> paid j) \<and>
                     (\<exists>t. deadline j = Some t \<and> now \<le> t \<and> t \<le> now + d * 86400000000000))
            (jobs s))" .
next
  show "list_jobs now s filter_unpaid (Some 0) =
     map (\<lambda>j. (j, series_mul (hours j) (rate j)))
       (filter (\<lambda>j. filter_unpaid \<longrightarrow> \<not> paid j) (jobs s))"
    unfolding list_jobs_def Let_def unpaid_filter map_unless_empty by simp
qed

theorem list_jobs_window_witness:
  "(14::int) \<noteq> 0 \<and>
   list_jobs may_20 acme_tracker True (Some 14) = [(acme, Some 500)] \<and>
   list_jobs may_20 acme_tracker True (Some 7) = [] \<and>
   list_jobs may_20 acme_tracker True (Some 0) = [(acme, Some 500)]"
proof -
  have "(14::int) \<noteq> 0" "(7::int) \<noteq> 0" by simp_all
  with list_jobs_window [where d = 14 and now = may_20 and s = acme_tracker and filter_unpaid = True]
    list_jobs_window [where d = 7 and now = may_20 and s = acme_tracker and filter_unpaid = True]
  show ?thesis
    by (simp add: acme_tracker_def acme_def may_20_def)
qed

text \<open>The claim as it was stated includes the window of 0 days. There the record of
  \<open>acme_tracker\<close> is listed although its deadline is more than eleven days after now.\<close>

theorem list_jobs_zero_window_counterexample:
  "list_jobs may_20 acme_tracker False (Some 0) = [(acme, Some 500)] \<and>
   deadline acme = Some 1748736000000000000 \<and>
   \<not> (may_20 \<le> 1748736000000000000 \<and> 1748736000000000000 \<le> may_20 + 0 * 86400000000000)"
  by (simp add: list_jobs_def acme_tracker_def acme_def may_20_def)

subsection \<open>Saving and loading\<close>






subsection \<open>Statistics\<close>

text \<open>
  Claim C7. The claim has \<^verbatim>\<open>get_stats\<close> compute both sums for every collection and
  never raise. In a session that began without a file this fails: after the first
  \<^verbatim>\<open>add_job\<close> the column \<^verbatim>\<open>paid\<close> is of dtype \<^verbatim>\<open>object\<close>, and line 97 raises
  \<^verbatim>\<open>KeyError\<close> before any sum is printed.
\<close>

theorem get_stats_fresh_session_raises:
  "tracker_init py_lib None = (empty_tracker, ObjectDtype) \<and>
   add_job py_lib may_20 (PStr ''Acme'') (PStr ''Website'') (PStr ''50'') (PStr ''2025-06-01'')
     (PStr ''10'') PNone empty_tracker = (Done, acme_tracker) \<and>
   get_stats ObjectDtype may_20 acme_tracker = Inl KeyError"
  by (simp add: tracker_init_def load_data_def empty_tracker_def [symmetric] acme_by_add_job
      get_stats_object_dtype acme_tracker_def)

subsection \<open>Editing a record\<close>

text \<open>
  Claim C8. A keyword that is not a column of the frame is ignored by \<^verbatim>\<open>edit_job\<close>:
  wherever it stands among the keyword arguments, the outcome and the tracker are those of
  the call without it, so it neither raises nor changes a field. A call in which no
  keyword is a column changes nothing and ends with one of the two printed messages.
  (Python binds the keywords \<^verbatim>\<open>self\<close> and \<^verbatim>\<open>project_name\<close> to the parameters of
  these names, so they are never keys of \<^verbatim>\<open>kwargs\<close>.)
\<close>

theorem edit_job_unknown_key_ignored:
  "(k \<notin> set valid_columns \<longrightarrow>
      edit_job L pname (xs @ (k, v) # ys) s = edit_job L pname (xs @ ys) s) \<and>
   ((\<forall>kv\<in>set kwargs. fst kv \<notin> set valid_columns) \<longrightarrow>
      snd (edit_job L pname kwargs s) = s \<and>
      (fst (edit_job L pname kwargs s) = NotFound \<or>
       fst (edit_job L pname kwargs s) = NoValidFields))"
proof (intro conjI impI)
  assume "k \<notin> set valid_columns"
  then show "edit_job L pname (xs @ (k, v) # ys) s = edit_job L pname (xs @ ys) s"
    by (simp add: edit_job_def)
next
  assume a: "\<forall>kv\<in>set kwargs. fst kv \<notin> set valid_columns"
  then have "filter (\<lambda>(k, v). k \<in> set valid_columns) kwargs = []"
    by (auto simp: filter_empty_conv)
  then show "snd (edit_job L pname kwargs s) = s"
    and "fst (edit_job L pname kwargs s) = NotFound \<or>
       fst (edit_job L pname kwargs s) = NoValidFields"
    by (simp_all add: edit_job_def)
qed

theorem edit_job_unknown_key_ignored_witness:
  "''colour'' \<notin> set valid_columns \<and>
   edit_job py_lib ''Website'' [(''colour'', PStr ''red''), (''paid'', PBool True)] acme_tracker =
     edit_job py_lib ''Website'' [(''paid'', PBool True)] acme_tracker \<and>
   edit_job py_lib ''Website'' [(''paid'', PBool True)] acme_tracker =
     (Done, \<lparr>jobs = [acme\<lparr>paid := True\<rparr>], data_file = Some [acme\<lparr>paid := True\<rparr>]\<rparr>) \<and>
   edit_job py_lib ''Website'' [(''colour'', PStr ''red'')] acme_tracker =
     (NoValidFields, acme_tracker)"
proof -
  have a: "''colour'' \<notin> set valid_columns"
    by (simp add: valid_columns_def)
  have b: "\<forall>kv\<in>set [(''colour'', PStr ''red'')]. fst kv \<notin> set valid_columns"
    by (simp add: valid_columns_def)
  have c: "edit_job py_lib ''Website'' [(''paid'', PBool True)] acme_tracker =
     (Done, \<lparr>jobs = [acme\<lparr>paid := True\<rparr>], data_file = Some [acme\<lparr>paid := True\<rparr>]\<rparr>)"
    by (simp add: edit_job_def valid_columns_def update_column_def loc_set_def save_data_def
        acme_tracker_def acme_def)
  have d: "fst (edit_job py_lib ''Website'' [(''colour'', PStr ''red'')] acme_tracker) \<noteq> NotFound"
    by (simp add: edit_job_def valid_columns_def acme_tracker_def acme_def)
  from edit_job_unknown_key_ignored [where k = "''colour''" and L = py_lib and pname = "''Website''"
      and xs = "[]" and v = "PStr ''red''" and ys = "[(''paid'', PBool True)]" and s = acme_tracker
      and kwargs = "[(''colour'', PStr ''red'')]"] a b c d
  show ?thesis
    by (metis append_Nil prod.collapse)
qed





subsection \<open>The sign of rate and hours\<close>

lemma loc_set_nonneg:
  "rate_hours_nonneg df \<Longrightarrow>
   (\<And>j. nonneg (rate j) \<and> nonneg (hours j) \<Longrightarrow> nonneg (rate (assign j)) \<and> nonneg (hours (assign j))) \<Longrightarrow>
   rate_hours_nonneg (loc_set pname assign df)"
  by (induction df) (simp_all add: rate_hours_nonneg_def loc_set_def)

lemma update_column_nonneg:
  assumes inv: "rate_hours_nonneg df"
    and ok: "col = ''rate'' \<or> col = ''hours'' \<Longrightarrow> (\<forall>f. py_float L v = Inr f \<longrightarrow> nonneg f)"
    and res: "update_column L pname col v df = Inr df'"
  shows "rate_hours_nonneg df'"
proof (cases "col = ''rate'' \<or> col = ''hours''")
  case True
  with res obtain f where f: "py_float L v = Inr f"
    and df': "df' = loc_set pname (if col = ''rate'' then (\<lambda>j. j\<lparr>rate := f\<rparr>) else (\<lambda>j. j\<lparr>hours := f\<rparr>)) df"
    by (auto simp: update_column_def split: sum.splits if_splits)
  from ok True f have "nonneg f" by blast
  with inv df' show ?thesis
    by (auto intro!: loc_set_nonneg)
next
  case False
  with res have "df' = loc_set pname (\<lambda>j. j\<lparr>deadline := (case to_datetime L v of Inr t \<Rightarrow> t)\<rparr>) df \<or>
      df' = loc_set pname (\<lambda>j. j\<lparr>paid := truthy v\<rparr>) df \<or>
      df' = loc_set pname (assign_raw L col v) df"
    by (auto simp: update_column_def split: sum.splits if_splits)
  with inv show ?thesis
    by (auto intro!: loc_set_nonneg simp: assign_raw_def)
qed

lemma apply_updates_nonneg:
  "rate_hours_nonneg df \<Longrightarrow>
   (\<forall>(k, v)\<in>set us. k = ''rate'' \<or> k = ''hours'' \<longrightarrow> (\<forall>f. py_float L v = Inr f \<longrightarrow> nonneg f)) \<Longrightarrow>
   rate_hours_nonneg (snd (apply_updates L pname us df))"
proof (induction us arbitrary: df)
  case Nil
  then show ?case by simp
next
  case (Cons u us)
  obtain c w where u: "u = (c, w)" by (cases u)
  show ?case
  proof (cases "update_column L pname c w df")
    case (Inl e)
    with Cons.prems u show ?thesis by simp
  next
    case (Inr df1)
    from Cons.prems u have ok: "c = ''rate'' \<or> c = ''hours'' \<Longrightarrow> (\<forall>f. py_float L w = Inr f \<longrightarrow> nonneg f)"
      by auto
    from Cons.prems(1) ok Inr have "rate_hours_nonneg df1"
      by (rule update_column_nonneg)
    moreover from Cons.prems(2) have
      "\<forall>(k, v)\<in>set us. k = ''rate'' \<or> k = ''hours'' \<longrightarrow> (\<forall>f. py_float L v = Inr f \<longrightarrow> nonneg f)"
      by simp
    ultimately have "rate_hours_nonneg (snd (apply_updates L pname us df1))"
      by (rule Cons.IH)
    with Inr u show ?thesis by simp
  qed
qed

lemma edit_job_jobs:
  "jobs (snd (edit_job L pname kwargs s)) = jobs s \<or>
   jobs (snd (edit_job L pname kwargs s)) =
     snd (apply_updates L pname (filter (\<lambda>(k, v). k \<in> set valid_columns) kwargs) (jobs s))"
  by (auto simp: edit_job_def Let_def save_data_def split: prod.splits option.splits)

lemma apply_updates_append:
  "apply_updates L pname (xs @ ys) df =
    (case apply_updates L pname xs df of
      (None, df') \<Rightarrow> apply_updates L pname ys df'
    | (Some e, df') \<Rightarrow> (Some e, df'))"
proof (induction xs arbitrary: df)
  case Nil
  show ?case by simp
next
  case (Cons u xs)
  obtain c w where u: "u = (c, w)" by (cases u)
  show ?case
    by (cases "update_column L pname c w df") (simp_all add: u Cons.IH)
qed

lemma edit_job_stores_converted:
  assumes found: "PStr pname \<in> set (map project_name (jobs s))"
    and k: "k = ''rate'' \<or> k = ''hours''"
    and f: "py_float L v = Inr f"
    and pre: "apply_updates L pname (filter (\<lambda>(k, v). k \<in> set valid_columns) pre) (jobs s) = (None, df)"
  shows "edit_job L pname (pre @ (k, v) # post) s =
    (case apply_updates L pname (filter (\<lambda>(k, v). k \<in> set valid_columns) post)
            (loc_set pname
               (if k = ''rate'' then (\<lambda>j. j\<lparr>rate := f\<rparr>) else (\<lambda>j. j\<lparr>hours := f\<rparr>)) df) of
      (Some e, df') \<Rightarrow> (Raised e, s\<lparr>jobs := df'\<rparr>)
    | (None, df') \<Rightarrow> (Done, save_data (s\<lparr>jobs := df'\<rparr>)))"
proof -
  let ?valid = "\<lambda>(k, v). k \<in> set valid_columns"
  from k have "k \<in> set valid_columns"
    by (auto simp: valid_columns_def)
  then have split: "filter ?valid (pre @ (k, v) # post) =
      filter ?valid pre @ (k, v) # filter ?valid post"
    by simp
  from k f have "update_column L pname k v df =
      Inr (loc_set pname (if k = ''rate'' then (\<lambda>j. j\<lparr>rate := f\<rparr>) else (\<lambda>j. j\<lparr>hours := f\<rparr>)) df)"
    by (auto simp: update_column_def)
  with pre have "apply_updates L pname (filter ?valid pre @ (k, v) # filter ?valid post) (jobs s) =
      apply_updates L pname (filter ?valid post)
        (loc_set pname (if k = ''rate'' then (\<lambda>j. j\<lparr>rate := f\<rparr>) else (\<lambda>j. j\<lparr>hours := f\<rparr>)) df)"
    by (simp add: apply_updates_append)
  with found split show ?thesis
    by (simp add: edit_job_def)
qed

text \<open>
  Claim C9, as amended. Neither \<^verbatim>\<open>add_job\<close> nor \<^verbatim>\<open>edit_job\<close> looks at the sign of a
  rate or of hours. \<^verbatim>\<open>add_job\<close> stores the numbers \<^verbatim>\<open>float\<close> returns as they are.
  \<^verbatim>\<open>edit_job\<close> assigns the number \<^verbatim>\<open>float\<close> returns for a rate or for hours to
  every matching record, whatever its sign, once the columns before it in the call have
  been assigned, and goes on with the columns after it. So the invariant is kept by an add
  or an edit whose rate and hours convert to numbers that are not negative, and nothing
  rejects the others.
\<close>

theorem add_edit_no_sign_check:
  "(py_float L rate_arg = Inr r \<and> to_datetime L deadline_arg = Inr d \<and>
    (if truthy hours_arg then py_float L hours_arg else Inr None) = Inr h \<longrightarrow>
      add_job L now client project rate_arg deadline_arg hours_arg notes_arg s =
        (Done, save_data (s\<lparr>jobs := jobs s @
           [\<lparr>client_name = client, project_name = project, rate = r, paid = False,
             deadline = d, date_added = Some now, hours = h, notes_col = notes_arg\<rparr>]\<rparr>))) \<and>
   (rate_hours_nonneg (jobs s) \<and> (\<forall>f. py_float L rate_arg = Inr f \<longrightarrow> nonneg f) \<and>
    (\<forall>f. py_float L hours_arg = Inr f \<longrightarrow> nonneg f) \<longrightarrow>
      rate_hours_nonneg
        (jobs (snd (add_job L now client project rate_arg deadline_arg hours_arg notes_arg s)))) \<and>
   (rate_hours_nonneg (jobs s) \<and>
    (\<forall>(k, v)\<in>set kwargs. k = ''rate'' \<or> k = ''hours'' \<longrightarrow>
       (\<forall>f. py_float L v = Inr f \<longrightarrow> nonneg f)) \<longrightarrow>
      rate_hours_nonneg (jobs (snd (edit_job L pname kwargs s)))) \<and>
   (PStr pname \<in> set (map project_name (jobs s)) \<and> (col = ''rate'' \<or> col = ''hours'') \<and>
    py_float L arg = Inr x \<and>
    apply_updates L pname (filter (\<lambda>(k, v). k \<in> set valid_columns) pre) (jobs s) = (None, df) \<longrightarrow>
      edit_job L pname (pre @ (col, arg) # post) s =
        (case apply_updates L pname (filter (\<lambda>(k, v). k \<in> set valid_columns) post)
                (loc_set pname
                   (if col = ''rate'' then (\<lambda>j. j\<lparr>rate := x\<rparr>) else (\<lambda>j. j\<lparr>hours := x\<rparr>)) df) of
          (Some e, df') \<Rightarrow> (Raised e, s\<lparr>jobs := df'\<rparr>)
        | (None, df') \<Rightarrow> (Done, save_data (s\<lparr>jobs := df'\<rparr>))))"
proof (intro conjI impI)
  assume "py_float L rate_arg = Inr r \<and> to_datetime L deadline_arg = Inr d \<and>
    (if truthy hours_arg then py_float L hours_arg else Inr None) = Inr h"
  then show "add_job L now client project rate_arg deadline_arg hours_arg notes_arg s =
        (Done, save_data (s\<lparr>jobs := jobs s @
           [\<lparr>client_name = client, project_name = project, rate = r, paid = False,
             deadline = d, date_added = Some now, hours = h, notes_col = notes_arg\<rparr>]\<rparr>))"
    by (simp add: add_job_def)
next
  assume "rate_hours_nonneg (jobs s) \<and> (\<forall>f. py_float L rate_arg = Inr f \<longrightarrow> nonneg f) \<and>
    (\<forall>f. py_float L hours_arg = Inr f \<longrightarrow> nonneg f)"
  then show "rate_hours_nonneg
        (jobs (snd (add_job L now client project rate_arg deadline_arg hours_arg notes_arg s)))"
    by (auto simp: add_job_def save_data_def rate_hours_nonneg_def nonneg_def
        split: sum.splits if_splits)
next
  assume a: "rate_hours_nonneg (jobs s) \<and>
    (\<forall>(k, v)\<in>set kwargs. k = ''rate'' \<or> k = ''hours'' \<longrightarrow>
       (\<forall>f. py_float L v = Inr f \<longrightarrow> nonneg f))"
  then have inv: "rate_hours_nonneg (jobs s)"
    by simp
  from a have "\<forall>(k, v)\<in>set (filter (\<lambda>(k, v). k \<in> set valid_columns) kwargs).
      k = ''rate'' \<or> k = ''hours'' \<longrightarrow> (\<forall>f. py_float L v = Inr f \<longrightarrow> nonneg f)"
    by auto
  with inv have "rate_hours_nonneg
      (snd (apply_updates L pname (filter (\<lambda>(k, v). k \<in> set valid_columns) kwargs) (jobs s)))"
    by (rule apply_updates_nonneg)
  with a edit_job_jobs [of L pname kwargs s]
  show "rate_hours_nonneg (jobs (snd (edit_job L pname kwargs s)))"
    by auto
next
  assume "PStr pname \<in> set (map project_name (jobs s)) \<and> (col = ''rate'' \<or> col = ''hours'') \<and>
    py_float L arg = Inr x \<and>
    apply_updates L pname (filter (\<lambda>(k, v). k \<in> set valid_columns) pre) (jobs s) = (None, df)"
  then show "edit_job L pname (pre @ (col, arg) # post) s =
        (case apply_updates L pname (filter (\<lambda>(k, v). k \<in> set valid_columns) post)
                (loc_set pname
                   (if col = ''rate'' then (\<lambda>j. j\<lparr>rate := x\<rparr>) else (\<lambda>j. j\<lparr>hours := x\<rparr>)) df) of
          (Some e, df') \<Rightarrow> (Raised e, s\<lparr>jobs := df'\<rparr>)
        | (None, df') \<Rightarrow> (Done, save_data (s\<lparr>jobs := df'\<rparr>)))"
    by (intro edit_job_stores_converted) simp_all
qed

theorem add_edit_no_sign_check_witness:
  "rate_hours_nonneg (jobs acme_tracker) \<and>
   rate_hours_nonneg (jobs (snd (add_job py_lib may_20 (PStr ''Initech'') (PStr ''Logo'')
       (PStr ''50'') (PStr ''2025-06-01'') (PStr ''10'') PNone acme_tracker))) \<and>
   rate_hours_nonneg (jobs (snd (edit_job py_lib ''Website''
       [(''rate'', PStr ''50''), (''notes'', PStr ''rush'')] acme_tracker))) \<and>
   add_job py_lib may_20 (PStr ''Initech'') (PStr ''Logo'') (PStr ''-50'') (PStr ''2025-06-01'')
       (PStr ''10'') PNone empty_tracker =
     (Done, save_data (empty_tracker\<lparr>jobs := jobs empty_tracker @
        [\<lparr>client_name = PStr ''Initech'', project_name = PStr ''Logo'', rate = Some (- 50),
          paid = False, deadline = Some 1748736000000000000, date_added = Some may_20,
          hours = Some 10, notes_col = PNone\<rparr>]\<rparr>)) \<and>
   edit_job py_lib ''Website''
       [(''client_name'', PStr ''Initech''), (''hours'', PStr ''-3''), (''colour'', PStr ''red'')]
       acme_tracker =
     (Done, save_data (acme_tracker\<lparr>jobs :=
        [acme\<lparr>client_name := PStr ''Initech'', hours := Some (- 3)\<rparr>]\<rparr>))"
proof -
  have inv: "rate_hours_nonneg (jobs acme_tracker)"
    by (simp add: rate_hours_nonneg_def nonneg_def acme_tracker_def acme_def)
  have r: "\<forall>f. py_float py_lib (PStr ''50'') = Inr f \<longrightarrow> nonneg f"
    by (simp add: float_50 nonneg_def del: py_float.simps)
  have h: "\<forall>f. py_float py_lib (PStr ''10'') = Inr f \<longrightarrow> nonneg f"
    by (simp add: float_10 nonneg_def del: py_float.simps)
  have k: "\<forall>(k, v)\<in>set [(''rate'', PStr ''50''), (''notes'', PStr ''rush'')].
      k = ''rate'' \<or> k = ''hours'' \<longrightarrow> (\<forall>f. py_float py_lib v = Inr f \<longrightarrow> nonneg f)"
    using r by simp
  have hh: "(if truthy (PStr ''10'') then py_float py_lib (PStr ''10'') else Inr None) = Inr (Some 10)"
    using float_10 by simp
  have found: "PStr ''Website'' \<in> set (map project_name (jobs acme_tracker))"
    by (simp add: acme_tracker_def acme_def)
  have pre: "apply_updates py_lib ''Website''
      (filter (\<lambda>(k, v). k \<in> set valid_columns) [(''client_name'', PStr ''Initech'')])
      (jobs acme_tracker) = (None, [acme\<lparr>client_name := PStr ''Initech''\<rparr>])"
    by (simp add: valid_columns_def update_column_def assign_raw_def loc_set_def
        acme_tracker_def acme_def)
  have col: "''hours'' = ''rate'' \<or> ''hours'' = ''hours''"
    by simp
  note t1 = add_edit_no_sign_check [where L = py_lib and s = acme_tracker and rate_arg = "PStr ''50''"
      and hours_arg = "PStr ''10''" and kwargs = "[(''rate'', PStr ''50''), (''notes'', PStr ''rush'')]"]
  note t2 = add_edit_no_sign_check [where L = py_lib and s = empty_tracker and rate_arg = "PStr ''-50''"
      and hours_arg = "PStr ''10''" and deadline_arg = "PStr ''2025-06-01''" and r = "Some (- 50)"
      and d = "Some 1748736000000000000" and h = "Some 10"]
  note t3 = add_edit_no_sign_check [where L = py_lib and s = acme_tracker and pname = "''Website''"
      and col = "''hours''" and arg = "PStr ''-3''" and x = "Some (- 3)"
      and pre = "[(''client_name'', PStr ''Initech'')]" and post = "[(''colour'', PStr ''red'')]"
      and df = "[acme\<lparr>client_name := PStr ''Initech''\<rparr>]"]
  from t1 inv r h k have "rate_hours_nonneg (jobs (snd (add_job py_lib may_20 (PStr ''Initech'') (PStr ''Logo'')
       (PStr ''50'') (PStr ''2025-06-01'') (PStr ''10'') PNone acme_tracker)))"
    and "rate_hours_nonneg (jobs (snd (edit_job py_lib ''Website''
       [(''rate'', PStr ''50''), (''notes'', PStr ''rush'')] acme_tracker)))"
    by blast+
  moreover from t2 float_minus_50 date_june_1 hh
  have "add_job py_lib may_20 (PStr ''Initech'') (PStr ''Logo'') (PStr ''-50'') (PStr ''2025-06-01'')
       (PStr ''10'') PNone empty_tracker =
     (Done, save_data (empty_tracker\<lparr>jobs := jobs empty_tracker @
        [\<lparr>client_name = PStr ''Initech'', project_name = PStr ''Logo'', rate = Some (- 50),
          paid = False, deadline = Some 1748736000000000000, date_added = Some may_20,
          hours = Some 10, notes_col = PNone\<rparr>]\<rparr>))"
    by blast
  moreover from t3 found col float_minus_3 pre
  have "edit_job py_lib ''Website''
       ([(''client_name'', PStr ''Initech'')] @ (''hours'', PStr ''-3'') # [(''colour'', PStr ''red'')])
       acme_tracker =
     (case apply_updates py_lib ''Website''
             (filter (\<lambda>(k, v). k \<in> set valid_columns) [(''colour'', PStr ''red'')])
             (loc_set ''Website''
                (if ''hours'' = ''rate'' then (\<lambda>j. j\<lparr>rate := Some (- 3)\<rparr>)
                 else (\<lambda>j. j\<lparr>hours := Some (- 3)\<rparr>))
                [acme\<lparr>client_name := PStr ''Initech''\<rparr>]) of
       (Some e, df') \<Rightarrow> (Raised e, acme_tracker\<lparr>jobs := df'\<rparr>)
     | (None, df') \<Rightarrow> (Done, save_data (acme_tracker\<lparr>jobs := df'\<rparr>)))"
    by blast
  then have "edit_job py_lib ''Website''
       [(''client_name'', PStr ''Initech''), (''hours'', PStr ''-3''), (''colour'', PStr ''red'')]
       acme_tracker =
     (Done, save_data (acme_tracker\<lparr>jobs :=
        [acme\<lparr>client_name := PStr ''Initech'', hours := Some (- 3)\<rparr>]\<rparr>))"
    by (simp add: valid_columns_def loc_set_def acme_def)
  ultimately show ?thesis using inv by blast
qed

text \<open>The claim as it was stated has every add and edit reject a negative value. A rate
  of \<^verbatim>\<open>-50\<close> is added and hours of \<^verbatim>\<open>-3\<close> are stored by an edit, which breaks the
  invariant.\<close>

theorem negative_rate_accepted_counterexample:
  "rate_hours_nonneg (jobs acme_tracker) \<and>
   add_job py_lib may_20 (PStr ''Initech'') (PStr ''Logo'') (PStr ''-50'') (PStr ''2025-06-01'')
       (PStr ''10'') PNone acme_tracker =
     (Done, \<lparr>jobs = [acme, \<lparr>client_name = PStr ''Initech'', project_name = PStr ''Logo'',
          rate = Some (- 50), paid = False, deadline = Some 1748736000000000000,
          date_added = Some may_20, hours = Some 10, notes_col = PNone\<rparr>],
        data_file = Some [acme, \<lparr>client_name = PStr ''Initech'', project_name = PStr ''Logo'',
          rate = Some (- 50), paid = False, deadline = Some 1748736000000000000,
          date_added = Some may_20, hours = Some 10, notes_col = PNone\<rparr>]\<rparr>) \<and>
   edit_job py_lib ''Website'' [(''hours'', PStr ''-3'')] acme_tracker =
     (Done, \<lparr>jobs = [acme\<lparr>hours := Some (- 3)\<rparr>], data_file = Some [acme\<lparr>hours := Some (- 3)\<rparr>]\<rparr>) \<and>
   \<not> rate_hours_nonneg [acme\<lparr>hours := Some (- 3)\<rparr>]"
  by (simp add: add_job_def edit_job_def valid_columns_def update_column_def loc_set_def
      save_data_def float_minus_50 float_minus_3 float_10 date_june_1 rate_hours_nonneg_def
      nonneg_def acme_tracker_def acme_def del: py_float.simps)

subsection \<open>Monthly earnings\<close>

lemma add_to_group_keys: "fst ` set (add_to_group k v gs) = insert k (fst ` set gs)"
  by (induction k v gs rule: add_to_group.induct) auto

lemma add_to_group_sorted:
  "sorted_wrt (<) (map fst gs) \<Longrightarrow> sorted_wrt (<) (map fst (add_to_group k v gs))"
proof (induction k v gs rule: add_to_group.induct)
  case (1 k v)
  show ?case by simp
next
  case (2 k v k' t gs)
  have keys: "fst ` set (add_to_group k v gs) = insert k (fst ` set gs)"
    by (rule add_to_group_keys)
  from 2 keys show ?case by (auto simp: image_iff)
qed

lemma map_of_below:
  "sorted_wrt (<) (map fst gs) \<Longrightarrow> (\<forall>k'\<in>fst ` set gs. k < k') \<Longrightarrow> map_of gs (k::int) = None"
  by (induction gs) auto

lemma add_to_group_map_of:
  "sorted_wrt (<) (map fst gs) \<Longrightarrow>
   map_of (add_to_group k v gs) m =
     (if m = k then Some (v + (case map_of gs k of None \<Rightarrow> 0 | Some t \<Rightarrow> t)) else map_of gs m)"
proof (induction k v gs rule: add_to_group.induct)
  case (1 k v)
  show ?case by simp
next
  case (2 k v k' t gs)
  show ?case
  proof (cases "k = k'")
    case True
    then show ?thesis by simp
  next
    case ne: False
    show ?thesis
    proof (cases "k < k'")
      case True
      from 2(2) True have "map_of gs k = None"
        by (intro map_of_below) auto
      with ne True show ?thesis by simp
    next
      case False
      with ne 2 show ?thesis by auto
    qed
  qed
qed

lemma groupby_sum_sorted: "sorted_wrt (<) (map fst (groupby_sum rows))"
  by (induction rows rule: groupby_sum.induct) (simp_all add: add_to_group_sorted)

lemma groupby_sum_keys: "fst ` set (groupby_sum rows) = {m. Some m \<in> fst ` set rows}"
  by (induction rows rule: groupby_sum.induct) (auto simp: add_to_group_keys image_iff)

lemma no_rows_of_key:
  "\<forall>x\<in>set rows. Some k \<noteq> fst x \<Longrightarrow> filter (\<lambda>r. fst r = Some k) rows = []"
  by (auto simp: filter_empty_conv)

lemma groupby_sum_map_of:
  "map_of (groupby_sum rows) m =
     (if Some m \<in> fst ` set rows
      then Some (series_sum (map snd (filter (\<lambda>r. fst r = Some m) rows))) else None)"
proof (induction rows rule: groupby_sum.induct)
  case 1
  show ?case by simp
next
  case (2 v rows)
  then show ?case by (auto simp: image_iff)
next
  case (3 k v rows)
  show ?case
  proof (cases "m = k")
    case True
    with 3 show ?thesis
      by (cases v) (auto simp: add_to_group_map_of groupby_sum_sorted image_iff no_rows_of_key)
  next
    case False
    with 3 show ?thesis
      by (auto simp: add_to_group_map_of groupby_sum_sorted image_iff)
  qed
qed

lemma groupby_sum_total:
  assumes "(m, amount) \<in> set (groupby_sum rows)"
  shows "amount = series_sum (map snd (filter (\<lambda>r. fst r = Some m) rows))"
proof -
  have "distinct (map fst (groupby_sum rows))"
    using groupby_sum_sorted [of rows] by (simp add: strict_sorted_iff)
  with assms have "map_of (groupby_sum rows) m = Some amount"
    by simp
  then show ?thesis
    by (simp add: groupby_sum_map_of split: if_splits)
qed

lemma generate_earnings_chart_eq:
  "generate_earnings_chart L s =
   groupby_sum (map (\<lambda>j. (map_option (to_period_M L) (date_added j), series_mul (hours j) (rate j)))
     (filter (\<lambda>j. paid j \<and> hours j \<noteq> None \<and> rate j \<noteq> None) (jobs s)))"
  by (simp add: generate_earnings_chart_def Let_def)

lemma Some_eq_map_option: "Some y = map_option f xo \<longleftrightarrow> (\<exists>z. xo = Some z \<and> f z = y)"
  by (cases xo) auto

lemma month_of_days:
  "month_from_days 20228 = 664" "month_from_days 20233 = 664" "month_from_days 20188 = 663"
  by code_simp+

lemma period_may_20: "to_period_M py_lib may_20 = 664"
  by (simp add: py_lib_fields may_20_def Timedelta_days_def month_of_days)

lemma period_may_25: "to_period_M py_lib 1748174400000000000 = 664"
  by (simp add: py_lib_fields Timedelta_days_def month_of_days)

lemma period_april_10: "to_period_M py_lib 1744243200000000000 = 663"
  by (simp add: py_lib_fields Timedelta_days_def month_of_days)

lemma chart_of_chart_tracker:
  "generate_earnings_chart py_lib chart_tracker = [(663, 20), (664, 160)]"
  by (simp add: generate_earnings_chart_def chart_tracker_def hooli_def acme_def globex_def
      period_may_20 period_may_25 period_april_10)

text \<open>
  Claim C6. The bars of \<^verbatim>\<open>generate_earnings_chart\<close> are in strictly increasing order
  of their months, so each month stands once and the order is that of the calendar; the
  months are exactly those of \<^verbatim>\<open>date_added\<close> of the paid records that have hours and
  rate; the height of a bar is the sum of hours times rate over those records of its
  month; and an empty frame gives no bar. A month is written as its ordinal, where the
  script writes the text of the period.
\<close>

theorem monthly_earnings_grouped:
  "sorted_wrt (<) (map fst (generate_earnings_chart L s)) \<and>
   fst ` set (generate_earnings_chart L s) =
     {m. \<exists>j\<in>set (jobs s). paid j \<and> hours j \<noteq> None \<and> rate j \<noteq> None \<and>
            map_option (to_period_M L) (date_added j) = Some m} \<and>
   (\<forall>(m, amount)\<in>set (generate_earnings_chart L s).
      amount = (\<Sum>j\<leftarrow>filter (\<lambda>j. paid j \<and> hours j \<noteq> None \<and> rate j \<noteq> None \<and>
                    map_option (to_period_M L) (date_added j) = Some m) (jobs s).
                  the (hours j) * the (rate j))) \<and>
   (jobs s = [] \<longrightarrow> generate_earnings_chart L s = [])"
proof (intro conjI)
  show "sorted_wrt (<) (map fst (generate_earnings_chart L s))"
    by (simp only: generate_earnings_chart_eq groupby_sum_sorted)
next
  show "fst ` set (generate_earnings_chart L s) =
     {m. \<exists>j\<in>set (jobs s). paid j \<and> hours j \<noteq> None \<and> rate j \<noteq> None \<and>
            map_option (to_period_M L) (date_added j) = Some m}"
    unfolding generate_earnings_chart_eq groupby_sum_keys
    by (auto simp: image_iff Some_eq_map_option)
next
  show "\<forall>(m, amount)\<in>set (generate_earnings_chart L s).
      amount = (\<Sum>j\<leftarrow>filter (\<lambda>j. paid j \<and> hours j \<noteq> None \<and> rate j \<noteq> None \<and>
                    map_option (to_period_M L) (date_added j) = Some m) (jobs s).
                  the (hours j) * the (rate j))"
  proof (clarify)
    fix m amount
    let ?P = "\<lambda>j. paid j \<and> hours j \<noteq> None \<and> rate j \<noteq> None"
    let ?key = "\<lambda>j. map_option (to_period_M L) (date_added j)"
    assume "(m, amount) \<in> set (generate_earnings_chart L s)"
    then have "amount = series_sum (map snd (filter (\<lambda>r. fst r = Some m)
        (map (\<lambda>j. (?key j, series_mul (hours j) (rate j))) (filter ?P (jobs s)))))"
      unfolding generate_earnings_chart_eq by (rule groupby_sum_total)
    also have "\<dots> = series_sum (map (\<lambda>j. series_mul (hours j) (rate j))
        (filter (\<lambda>j. ?key j = Some m) (filter ?P (jobs s))))"
      by (simp add: filter_map o_def del: filter_filter)
    also have "\<dots> = (\<Sum>j\<leftarrow>filter (\<lambda>j. ?key j = Some m \<and> hours j \<noteq> None \<and> rate j \<noteq> None)
        (filter ?P (jobs s)). the (hours j) * the (rate j))"
      by (rule series_sum_present)
    also have "filter (\<lambda>j. ?key j = Some m \<and> hours j \<noteq> None \<and> rate j \<noteq> None) (filter ?P (jobs s)) =
        filter (\<lambda>j. paid j \<and> hours j \<noteq> None \<and> rate j \<noteq> None \<and> ?key j = Some m) (jobs s)"
      by (auto intro: filter_cong)
    finally show "amount = (\<Sum>j\<leftarrow>filter (\<lambda>j. paid j \<and> hours j \<noteq> None \<and> rate j \<noteq> None \<and>
                    map_option (to_period_M L) (date_added j) = Some m) (jobs s).
                  the (hours j) * the (rate j))" .
  qed
next
  show "jobs s = [] \<longrightarrow> generate_earnings_chart L s = []"
    by (simp add: generate_earnings_chart_def)
qed

theorem monthly_earnings_grouped_witness:
  "generate_earnings_chart py_lib chart_tracker = [(663, 20), (664, 160)] \<and>
   sorted_wrt (<) (map fst (generate_earnings_chart py_lib chart_tracker)) \<and>
   generate_earnings_chart py_lib empty_tracker = []"
proof -
  have "jobs empty_tracker = []"
    by (simp add: empty_tracker_def)
  with monthly_earnings_grouped [of py_lib chart_tracker] monthly_earnings_grouped [of py_lib empty_tracker]
    chart_of_chart_tracker
  show ?thesis by blast
qed

end
